theory Spec2Isabelle
  imports Main "HOL-Library.Word"
begin

section \<open>Values and exceptions\<close>

text \<open>
  The values \<^verbatim>\<open>json.load\<close> produces, which are also the values of node and edge
  attributes. A Python \<^verbatim>\<open>dict\<close> with string keys is an association list in
  insertion order; a \<^verbatim>\<open>float\<close> is kept as its 64 bits, since the program only
  copies it.
\<close>

datatype json =
    JNull
  | JBool bool
  | JInt int
  | JFloat "64 word"
  | JStr string
  | JArr "json list"
  | JObj "(string \<times> json) list"

text \<open>The exceptions the modelled code can raise.\<close>

datatype error =
    KeyError string
  | TypeError
  | AttributeError
  | OSError
  | JSONDecodeError

type_synonym attrs = "string \<rightharpoonup> json"

text \<open>\<^verbatim>\<open>x[key]\<close> for a string key: only a dict can be subscripted by a string.\<close>

definition subscript :: "json \<Rightarrow> string \<Rightarrow> error + json" where
  "subscript x key =
     (case x of
        JObj kvs \<Rightarrow> (case map_of kvs key of None \<Rightarrow> Inl (KeyError key) | Some v \<Rightarrow> Inr v)
      | _ \<Rightarrow> Inl TypeError)"

text \<open>\<^verbatim>\<open>x.items()\<close>: only a dict has the method.\<close>

definition items :: "json \<Rightarrow> error + (string \<times> json) list" where
  "items x = (case x of JObj kvs \<Rightarrow> Inr kvs | _ \<Rightarrow> Inl AttributeError)"

fun startswith :: "string \<Rightarrow> string \<Rightarrow> bool" where
  "startswith s [] = True"
| "startswith [] (c # cs) = False"
| "startswith (x # xs) (c # cs) = (x = c \<and> startswith xs cs)"

fun str_contains :: "string \<Rightarrow> string \<Rightarrow> bool" where
  "str_contains [] sub = (sub = [])"
| "str_contains (x # xs) sub = (startswith (x # xs) sub \<or> str_contains xs sub)"

text \<open>
  \<^verbatim>\<open>index in x\<close> for a string \<open>index\<close>: membership in a list (by equality), substring
  of a string, key of a dict; any other value is not iterable.
\<close>

definition contains :: "string \<Rightarrow> json \<Rightarrow> error + bool" where
  "contains index x =
     (case x of
        JArr xs \<Rightarrow> Inr (JStr index \<in> set xs)
      | JStr s \<Rightarrow> Inr (str_contains s index)
      | JObj kvs \<Rightarrow> Inr (index \<in> set (map fst kvs))
      | _ \<Rightarrow> Inl TypeError)"

section \<open>The graph\<close>

text \<open>
  The class inherits from \<^verbatim>\<open>networkx.DiGraph\<close>, a library the program imports (line 29).
  Of that container the model keeps what the program uses: the attribute dict of every
  node, and the attribute dict of every ordered pair that is an edge; a pair is an edge at
  most once. \<open>ResGraph\<close> adds the two fields of lines 38-39.
\<close>

record DiGraph =
  nodes :: "string \<rightharpoonup> attrs"
  edges :: "string \<times> string \<rightharpoonup> attrs"

record ResGraph = DiGraph +
  skeleton_path :: string
  "structure" :: json

text \<open>
  The library's \<^verbatim>\<open>add_node(self, node_for_adding, **attr)\<close>: a new node gets \<open>attr\<close>;
  the attribute dict of a node that exists is updated with \<open>attr\<close>, a new value
  replacing the old one under the same key.
\<close>

definition add_node :: "ResGraph \<Rightarrow> string \<Rightarrow> attrs \<Rightarrow> ResGraph" where
  "add_node self n attr =
     self\<lparr>nodes := (nodes self)(n \<mapsto>
       (case nodes self n of None \<Rightarrow> Map.empty | Some d \<Rightarrow> d) ++ attr)\<rparr>"

text \<open>
  The library's \<^verbatim>\<open>add_edge(self, u_of_edge, v_of_edge, **attr)\<close>: the two endpoints
  are added as nodes without attributes when they are not in the graph; the attribute dict
  of the pair (empty when the pair is not an edge yet) is updated with \<open>attr\<close>.
  \<^verbatim>\<open>has_edge(u, v)\<close> tells whether the pair is an edge.
\<close>

definition ensure_node :: "string \<Rightarrow> (string \<rightharpoonup> attrs) \<Rightarrow> (string \<rightharpoonup> attrs)" where
  "ensure_node n ns = (case ns n of None \<Rightarrow> ns(n \<mapsto> Map.empty) | Some d \<Rightarrow> ns)"

definition add_edge :: "ResGraph \<Rightarrow> string \<Rightarrow> string \<Rightarrow> attrs \<Rightarrow> ResGraph" where
  "add_edge self u v attr =
     self\<lparr>nodes := ensure_node v (ensure_node u (nodes self)),
          edges := (edges self)((u, v) \<mapsto>
            (case edges self (u, v) of None \<Rightarrow> Map.empty | Some d \<Rightarrow> d) ++ attr)\<rparr>"

definition has_edge :: "ResGraph \<Rightarrow> string \<Rightarrow> string \<Rightarrow> bool" where
  "has_edge self u v = (edges self (u, v) \<noteq> None)"

text \<open>
  A call \<^verbatim>\<open>f(..., k1=v1, ..., **d1, **d2)\<close> to a function whose named parameters are
  \<open>formals\<close> and which collects the rest in \<^verbatim>\<open>**attr\<close>: a keyword given twice, or
  one that names a parameter already bound positionally, raises \<^verbatim>\<open>TypeError\<close>.
\<close>

definition bind_keywords :: "string list \<Rightarrow> (string \<times> json) list \<Rightarrow> error + attrs" where
  "bind_keywords formals kw =
     (if \<not> distinct (map fst kw) then Inl TypeError
      else if list_ex (\<lambda>k. k \<in> set formals) (map fst kw) then Inl TypeError
      else Inr (map_of kw))"

section \<open>Loading the structure\<close>

text \<open>What opening the file at a path and parsing it as JSON does.\<close>

datatype file_read =
    FileNotFound
  | OpenFails
  | NotJSON
  | Document json

text \<open>Lines 51-59. The second component is what is printed.\<close>

definition load_structure :: "(string \<Rightarrow> file_read) \<Rightarrow> string \<Rightarrow> (error + json) \<times> string list" where
  "load_structure fs path =
     (case fs path of
        Document skeleton_data \<Rightarrow> (Inr skeleton_data, [])
      | FileNotFound \<Rightarrow> (Inr (JObj []), [''Warning: '' @ path @ '' not found.''])
      | OpenFails \<Rightarrow> (Inl OSError, [])
      | NotJSON \<Rightarrow> (Inl JSONDecodeError, []))"

definition default_skeleton_path :: string where
  "default_skeleton_path = ''./Structure/skeleton.json''"

text \<open>
  Lines 38-49: the generated constructor with \<^verbatim>\<open>__post_init__\<close>. The graph starts
  empty and the structure is what \<open>load_structure\<close> returns.
\<close>

definition init :: "(string \<Rightarrow> file_read) \<Rightarrow> string option \<Rightarrow> (error + ResGraph) \<times> string list" where
  "init fs path_arg =
     (let path = (case path_arg of None \<Rightarrow> default_skeleton_path | Some p \<Rightarrow> p) in
      case load_structure fs path of
        (Inl e, out) \<Rightarrow> (Inl e, out)
      | (Inr s, out) \<Rightarrow>
          (Inr \<lparr>nodes = Map.empty, edges = Map.empty, skeleton_path = path, structure = s\<rparr>, out))"

section \<open>Queries on the structure\<close>

text \<open>
  The dict comprehension of lines 67-69 and 77-79, over the items in order: the condition
  \<^verbatim>\<open>index in ft['indices']\<close> is evaluated first, \<^verbatim>\<open>ft['default']\<close> only when it
  holds.
\<close>

fun comprehension :: "string \<Rightarrow> (string \<times> json) list \<Rightarrow> error + (string \<times> json) list" where
  "comprehension index [] = Inr []"
| "comprehension index ((name, ft) # rest) =
     (case subscript ft ''indices'' of
        Inl e \<Rightarrow> Inl e
      | Inr ind \<Rightarrow>
          (case contains index ind of
             Inl e \<Rightarrow> Inl e
           | Inr True \<Rightarrow>
               (case subscript ft ''default'' of
                  Inl e \<Rightarrow> Inl e
                | Inr d \<Rightarrow>
                    (case comprehension index rest of
                       Inl e \<Rightarrow> Inl e
                     | Inr r \<Rightarrow> Inr ((name, d) # r)))
           | Inr False \<Rightarrow> comprehension index rest))"

text \<open>
  A method takes the object and returns what it returns or raises, with the object
  afterwards.
\<close>

text \<open>Lines 61-69.\<close>

definition get_params :: "ResGraph \<Rightarrow> string \<Rightarrow> (error + (string \<times> json) list) \<times> ResGraph" where
  "get_params self index =
     (case subscript (structure self) ''params'' of
        Inl e \<Rightarrow> (Inl e, self)
      | Inr params \<Rightarrow>
          (case items params of
             Inl e \<Rightarrow> (Inl e, self)
           | Inr kvs \<Rightarrow> (comprehension index kvs, self)))"

text \<open>Lines 71-79.\<close>

definition get_variables :: "ResGraph \<Rightarrow> string \<Rightarrow> (error + (string \<times> json) list) \<times> ResGraph" where
  "get_variables self index =
     (case subscript (structure self) ''variables'' of
        Inl e \<Rightarrow> (Inl e, self)
      | Inr vars \<Rightarrow>
          (case items vars of
             Inl e \<Rightarrow> (Inl e, self)
           | Inr kvs \<Rightarrow> (comprehension index kvs, self)))"

section \<open>Adding technologies and fuels\<close>

text \<open>The parameter \<^verbatim>\<open>index: str = "t"\<close> of line 86 and \<^verbatim>\<open>index: str = "f"\<close> of line 131.\<close>

definition technology_index :: "string option \<Rightarrow> string" where
  "technology_index index_arg = (case index_arg of None \<Rightarrow> ''t'' | Some i \<Rightarrow> i)"

definition fuel_index :: "string option \<Rightarrow> string" where
  "fuel_index index_arg = (case index_arg of None \<Rightarrow> ''f'' | Some i \<Rightarrow> i)"

text \<open>
  Lines 81-123. The keywords of the call to \<^verbatim>\<open>add_node\<close> are the three the method writes
  out, then the two dicts unpacked with \<^verbatim>\<open>**\<close>; \<^verbatim>\<open>self\<close> and \<^verbatim>\<open>node_for_adding\<close>
  are bound already. Nothing is added when the call raises.
\<close>

definition add_technology ::
  "ResGraph \<Rightarrow> string \<Rightarrow> string \<Rightarrow> int \<Rightarrow> string option \<Rightarrow> (error + unit) \<times> ResGraph" where
  "add_technology self tech_label tech_type layer index_arg =
     (let index = technology_index index_arg in
      case get_params self index of
        (Inl e, s1) \<Rightarrow> (Inl e, s1)
      | (Inr node_params, s1) \<Rightarrow>
          (case get_variables s1 index of
             (Inl e, s2) \<Rightarrow> (Inl e, s2)
           | (Inr node_vars, s2) \<Rightarrow>
               (case bind_keywords [''self'', ''node_for_adding'']
                       ([(''tech_type'', JStr tech_type), (''layer'', JInt layer),
                         (''index'', JStr index)] @ node_params @ node_vars) of
                  Inl e \<Rightarrow> (Inl e, s2)
                | Inr attr \<Rightarrow> (Inr (), add_node s2 tech_label attr))))"

text \<open>
  Lines 125-156, in the same way, with \<^verbatim>\<open>add_edge\<close>.
\<close>

definition add_fuel ::
  "ResGraph \<Rightarrow> string \<Rightarrow> string \<Rightarrow> string \<Rightarrow> string \<Rightarrow> string option \<Rightarrow> (error + unit) \<times> ResGraph" where
  "add_fuel self tech_from tech_to fuel_label fuel_type index_arg =
     (let index = fuel_index index_arg in
      case get_params self index of
        (Inl e, s1) \<Rightarrow> (Inl e, s1)
      | (Inr edge_params, s1) \<Rightarrow>
          (case get_variables s1 index of
             (Inl e, s2) \<Rightarrow> (Inl e, s2)
           | (Inr edge_vars, s2) \<Rightarrow>
               (case bind_keywords [''self'', ''u_of_edge'', ''v_of_edge'']
                       ([(''fuel_label'', JStr fuel_label), (''fuel_type'', JStr fuel_type),
                         (''index'', JStr index)] @ edge_params @ edge_vars) of
                  Inl e \<Rightarrow> (Inl e, s2)
                | Inr attr \<Rightarrow> (Inr (), add_edge s2 tech_from tech_to attr))))"

section \<open>The schema as the specification describes it\<close>

text \<open>
  A document with the collections \<^verbatim>\<open>params\<close> and \<^verbatim>\<open>variables\<close>; each entry maps a
  name to a dict with a list \<^verbatim>\<open>indices\<close> and a value \<^verbatim>\<open>default\<close>. Names are the keys
  of a dict, so no name occurs twice.
\<close>

definition wf_entry :: "json \<Rightarrow> bool" where
  "wf_entry ft =
     (case ft of
        JObj kvs \<Rightarrow>
          (case map_of kvs ''indices'' of
             Some (JArr xs) \<Rightarrow> map_of kvs ''default'' \<noteq> None
           | _ \<Rightarrow> False)
      | _ \<Rightarrow> False)"

definition wf_entries :: "(string \<times> json) list \<Rightarrow> bool" where
  "wf_entries kvs = (distinct (map fst kvs) \<and> list_all wf_entry (map snd kvs))"

text \<open>The collection under a top-level key of the document, when there is one.\<close>

definition collection :: "json \<Rightarrow> string \<Rightarrow> (string \<times> json) list option" where
  "collection s key =
     (case s of
        JObj doc \<Rightarrow> (case map_of doc key of Some (JObj kvs) \<Rightarrow> Some kvs | _ \<Rightarrow> None)
      | _ \<Rightarrow> None)"

definition params_of :: "json \<Rightarrow> (string \<times> json) list" where
  "params_of s = (case collection s ''params'' of Some kvs \<Rightarrow> kvs | None \<Rightarrow> [])"

definition variables_of :: "json \<Rightarrow> (string \<times> json) list" where
  "variables_of s = (case collection s ''variables'' of Some kvs \<Rightarrow> kvs | None \<Rightarrow> [])"

definition well_formed :: "json \<Rightarrow> bool" where
  "well_formed s =
     (case collection s ''params'' of
        None \<Rightarrow> False
      | Some ps \<Rightarrow>
          (case collection s ''variables'' of
             None \<Rightarrow> False
           | Some vs \<Rightarrow> wf_entries ps \<and> wf_entries vs))"

text \<open>An entry's declared indices contain \<open>i\<close>; an entry's declared default.\<close>

definition declared_for :: "string \<Rightarrow> json \<Rightarrow> bool" where
  "declared_for i ft =
     (case ft of
        JObj kvs \<Rightarrow> (case map_of kvs ''indices'' of Some (JArr xs) \<Rightarrow> JStr i \<in> set xs | _ \<Rightarrow> False)
      | _ \<Rightarrow> False)"

definition declared_default :: "json \<Rightarrow> json option" where
  "declared_default ft = (case ft of JObj kvs \<Rightarrow> map_of kvs ''default'' | _ \<Rightarrow> None)"

text \<open>
  The specification's \<open>params_for\<close> and \<open>variables_for\<close>, over a collection of entries:
  the names whose declared indices contain \<open>i\<close>, each mapped to its declared default.
\<close>

definition defaults_for :: "string \<Rightarrow> (string \<times> json) list \<Rightarrow> attrs" where
  "defaults_for i entries =
     (\<lambda>name. case map_of entries name of
                None \<Rightarrow> None
              | Some ft \<Rightarrow> if declared_for i ft then declared_default ft else None)"

definition tagged_names :: "string \<Rightarrow> (string \<times> json) list \<Rightarrow> string list" where
  "tagged_names i entries = map fst (filter (\<lambda>(name, ft). declared_for i ft) entries)"

text \<open>
  No keyword of a call is given twice or names a parameter of the container's method:
  \<open>base\<close> are the keywords the call writes out, the others are the names the schema
  tags with \<open>i\<close>.
\<close>

definition no_clash :: "string list \<Rightarrow> string list \<Rightarrow> string \<Rightarrow> json \<Rightarrow> bool" where
  "no_clash formals base i s =
     (distinct (base @ tagged_names i (params_of s) @ tagged_names i (variables_of s)) \<and>
      \<not> list_ex (\<lambda>k. k \<in> set formals)
          (base @ tagged_names i (params_of s) @ tagged_names i (variables_of s)))"

definition schema_defaults :: "string \<Rightarrow> json \<Rightarrow> attrs" where
  "schema_defaults i s = defaults_for i (params_of s) ++ defaults_for i (variables_of s)"

text \<open>
  The attributes a call hands to the container when no keyword clashes: the ones it writes
  out and the schema's defaults for the index.
\<close>

definition technology_attrs :: "string \<Rightarrow> int \<Rightarrow> string \<Rightarrow> json \<Rightarrow> attrs" where
  "technology_attrs tech_type layer i s =
     map_of [(''tech_type'', JStr tech_type), (''layer'', JInt layer), (''index'', JStr i)]
       ++ schema_defaults i s"

definition fuel_attrs :: "string \<Rightarrow> string \<Rightarrow> string \<Rightarrow> json \<Rightarrow> attrs" where
  "fuel_attrs fuel_label fuel_type i s =
     map_of [(''fuel_label'', JStr fuel_label), (''fuel_type'', JStr fuel_type), (''index'', JStr i)]
       ++ schema_defaults i s"

definition technology_formals :: "string list" where
  "technology_formals = [''self'', ''node_for_adding'']"

definition technology_base :: "string list" where
  "technology_base = [''tech_type'', ''layer'', ''index'']"

definition fuel_formals :: "string list" where
  "fuel_formals = [''self'', ''u_of_edge'', ''v_of_edge'']"

definition fuel_base :: "string list" where
  "fuel_base = [''fuel_label'', ''fuel_type'', ''index'']"

section \<open>Example schemas and graphs\<close>

definition entry :: "string list \<Rightarrow> json \<Rightarrow> json" where
  "entry indices d = JObj [(''indices'', JArr (map JStr indices)), (''default'', d)]"

definition empty_graph :: "json \<Rightarrow> ResGraph" where
  "empty_graph s =
     \<lparr>nodes = Map.empty, edges = Map.empty, skeleton_path = default_skeleton_path, structure = s\<rparr>"

text \<open>The schema of the specification's scenario: one parameter, tagged \<^verbatim>\<open>"technology"\<close>.\<close>

definition capacity_structure :: json where
  "capacity_structure =
     JObj [(''params'', JObj [(''Capacity'', entry [''technology''] (JInt 0))]),
           (''variables'', JObj [])]"

text \<open>A schema tagged with the one-letter index codes the methods use.\<close>

definition res_structure :: json where
  "res_structure =
     JObj [(''params'',
              JObj [(''CapitalCost'', entry [''r'', ''t'', ''y''] (JInt 0)),
                    (''SpecifiedAnnualDemand'', entry [''r'', ''f'', ''y''] (JInt 0))]),
           (''variables'',
              JObj [(''NewCapacity'', entry [''r'', ''t'', ''y''] (JInt 0)),
                    (''Demand'', entry [''r'', ''l'', ''f'', ''y''] (JInt 0))])]"

text \<open>Schemas with a name that is also a keyword of a call.\<close>

definition layer_structure :: json where
  "layer_structure =
     JObj [(''params'', JObj [(''layer'', entry [''t''] (JInt 7))]), (''variables'', JObj [])]"

definition fuel_label_structure :: json where
  "fuel_label_structure =
     JObj [(''params'', JObj [(''fuel_label'', entry [''f''] JNull)]), (''variables'', JObj [])]"

definition layer_x_structure :: json where
  "layer_x_structure =
     JObj [(''params'', JObj [(''layer'', entry [''x''] (JInt 1))]), (''variables'', JObj [])]"

text \<open>No file at any path.\<close>

definition no_files :: "string \<Rightarrow> file_read" where
  "no_files path = FileNotFound"

text \<open>A graph that already holds a technology and a fuel.\<close>

definition transmission_graph :: ResGraph where
  "transmission_graph =
     \<lparr>nodes = [''PWRHYD'' \<mapsto> Map.empty,
               ''PWRTRN'' \<mapsto> [''tech_type'' \<mapsto> JStr ''Transmission of Electricity'',
                              ''layer'' \<mapsto> JInt 1, ''index'' \<mapsto> JStr ''t'']],
      edges = [(''PWRHYD'', ''PWRTRN'') \<mapsto> [''fuel_label'' \<mapsto> JStr ''ELC001'']],
      skeleton_path = default_skeleton_path,
      structure = res_structure\<rparr>"

section \<open>Lemmas on the schema queries\<close>

lemma wf_entry_lookup:
  assumes "wf_entry ft"
  shows "\<exists>xs d. subscript ft ''indices'' = Inr (JArr xs) \<and> subscript ft ''default'' = Inr d \<and>
           contains i (JArr xs) = Inr (declared_for i ft) \<and> declared_default ft = Some d"
  using assms
  by (auto simp: wf_entry_def subscript_def contains_def declared_for_def declared_default_def
      split: json.splits option.splits)

lemma comprehension_wf:
  assumes "wf_entries kvs"
  shows "\<exists>r. comprehension i kvs = Inr r \<and> map fst r = tagged_names i kvs \<and>
           map_of r = defaults_for i kvs"
  using assms
proof (induction kvs)
  case Nil
  show ?case by (simp add: tagged_names_def defaults_for_def)
next
  case (Cons p kvs)
  obtain name ft where p: "p = (name, ft)" by (cases p)
  from Cons.prems p have fresh: "name \<notin> fst ` set kvs" and wf: "wf_entry ft" and rest: "wf_entries kvs"
    by (auto simp: wf_entries_def)
  from Cons.IH [OF rest] obtain r where r: "comprehension i kvs = Inr r"
      "map fst r = tagged_names i kvs" "map_of r = defaults_for i kvs"
    by blast
  from wf_entry_lookup [OF wf, of i] obtain xs d where e:
      "subscript ft ''indices'' = Inr (JArr xs)" "subscript ft ''default'' = Inr d"
      "contains i (JArr xs) = Inr (declared_for i ft)" "declared_default ft = Some d"
    by blast
  from fresh have none: "map_of kvs name = None"
    by (simp add: map_of_eq_None_iff)
  show ?case
  proof (cases "declared_for i ft")
    case True
    have "comprehension i (p # kvs) = Inr ((name, d) # r)"
      using p e r True by simp
    moreover have "map fst ((name, d) # r) = tagged_names i (p # kvs)"
      using p r True by (simp add: tagged_names_def)
    moreover have "map_of ((name, d) # r) = defaults_for i (p # kvs)"
      using p r e True by (auto simp: defaults_for_def fun_eq_iff)
    ultimately show ?thesis by blast
  next
    case False
    have "comprehension i (p # kvs) = Inr r"
      using p e r False by simp
    moreover have "map fst r = tagged_names i (p # kvs)"
      using p r False by (simp add: tagged_names_def)
    moreover have "map_of r = defaults_for i (p # kvs)"
      using p r e False none by (auto simp: defaults_for_def fun_eq_iff)
    ultimately show ?thesis by blast
  qed
qed

lemma collection_subscript:
  assumes "collection s key = Some kvs"
  shows "subscript s key = Inr (JObj kvs)"
proof (cases s)
  case (JObj doc)
  show ?thesis
  proof (cases "map_of doc key")
    case None
    with JObj assms show ?thesis by (simp add: collection_def)
  next
    case (Some v)
    with JObj assms show ?thesis
      by (cases v) (simp_all add: collection_def subscript_def)
  qed
qed (use assms in \<open>simp_all add: collection_def\<close>)

lemma well_formed_parts:
  assumes "well_formed s"
  shows "subscript s ''params'' = Inr (JObj (params_of s))"
    and "subscript s ''variables'' = Inr (JObj (variables_of s))"
    and "wf_entries (params_of s)" and "wf_entries (variables_of s)"
proof -
  from assms obtain ps vs where c: "collection s ''params'' = Some ps" "collection s ''variables'' = Some vs"
    and w: "wf_entries ps" "wf_entries vs"
    by (auto simp: well_formed_def split: option.splits)
  from c w show "wf_entries (params_of s)" "wf_entries (variables_of s)"
    by (simp_all add: params_of_def variables_of_def)
  from c collection_subscript show "subscript s ''params'' = Inr (JObj (params_of s))"
    "subscript s ''variables'' = Inr (JObj (variables_of s))"
    by (simp_all add: params_of_def variables_of_def)
qed

lemma get_params_wf:
  assumes "well_formed (structure g)"
  shows "\<exists>ps. get_params g i = (Inr ps, g) \<and> map fst ps = tagged_names i (params_of (structure g)) \<and>
           map_of ps = defaults_for i (params_of (structure g))"
  using well_formed_parts(1,3) [OF assms] comprehension_wf [of "params_of (structure g)" i]
  by (auto simp: get_params_def items_def)

lemma get_variables_wf:
  assumes "well_formed (structure g)"
  shows "\<exists>vs. get_variables g i = (Inr vs, g) \<and> map fst vs = tagged_names i (variables_of (structure g)) \<and>
           map_of vs = defaults_for i (variables_of (structure g))"
  using well_formed_parts(2,4) [OF assms] comprehension_wf [of "variables_of (structure g)" i]
  by (auto simp: get_variables_def items_def)

lemma get_params_pure: "snd (get_params g i) = g"
  by (simp add: get_params_def split: sum.splits)

lemma get_variables_pure: "snd (get_variables g i) = g"
  by (simp add: get_variables_def split: sum.splits)

lemma map_of_append_distinct:
  assumes "distinct (map fst (xs @ ys))"
  shows "map_of (xs @ ys) = map_of xs ++ map_of ys"
proof -
  from assms have "dom (map_of ys) \<inter> dom (map_of xs) = {}"
    by (auto simp: dom_map_of_conv_image_fst)
  then show ?thesis by (simp add: map_add_comm)
qed

lemma bind_keywords_no_clash:
  assumes "map fst ps = tagged_names i (params_of s)" and "map fst vs = tagged_names i (variables_of s)"
    and "map fst base = names" and "no_clash formals names i s"
  shows "bind_keywords formals (base @ ps @ vs) = Inr (map_of base ++ map_of ps ++ map_of vs)"
proof -
  from assms have d: "distinct (map fst (base @ ps @ vs))"
    and f: "\<not> list_ex (\<lambda>k. k \<in> set formals) (map fst (base @ ps @ vs))"
    by (simp_all add: no_clash_def)
  from d have d2: "distinct (map fst (ps @ vs))" by simp
  have "map_of (base @ ps @ vs) = map_of base ++ map_of (ps @ vs)"
    using d by (rule map_of_append_distinct)
  also have "map_of (ps @ vs) = map_of ps ++ map_of vs"
    using d2 by (rule map_of_append_distinct)
  finally have "map_of (base @ ps @ vs) = map_of base ++ map_of ps ++ map_of vs"
    by simp
  with d f show ?thesis by (simp add: bind_keywords_def)
qed

lemma add_technology_wf:
  assumes "well_formed (structure g)"
    and "no_clash technology_formals technology_base (technology_index idx) (structure g)"
  shows "add_technology g l ty la idx =
           (Inr (), add_node g l (technology_attrs ty la (technology_index idx) (structure g)))"
proof -
  let ?i = "technology_index idx"
  from get_params_wf [OF assms(1), of ?i] obtain ps where ps: "get_params g ?i = (Inr ps, g)"
      "map fst ps = tagged_names ?i (params_of (structure g))"
      "map_of ps = defaults_for ?i (params_of (structure g))" by blast
  from get_variables_wf [OF assms(1), of ?i] obtain vs where vs: "get_variables g ?i = (Inr vs, g)"
      "map fst vs = tagged_names ?i (variables_of (structure g))"
      "map_of vs = defaults_for ?i (variables_of (structure g))" by blast
  have "bind_keywords [''self'', ''node_for_adding'']
          ([(''tech_type'', JStr ty), (''layer'', JInt la), (''index'', JStr ?i)] @ ps @ vs) =
        Inr (map_of [(''tech_type'', JStr ty), (''layer'', JInt la), (''index'', JStr ?i)]
             ++ map_of ps ++ map_of vs)"
    using bind_keywords_no_clash [OF ps(2) vs(2) _ assms(2) [unfolded technology_formals_def],
        of "[(''tech_type'', JStr ty), (''layer'', JInt la), (''index'', JStr ?i)]"]
    by (simp add: technology_base_def)
  then show ?thesis
    using ps vs by (simp add: add_technology_def technology_attrs_def schema_defaults_def Let_def)
qed

lemma add_fuel_wf:
  assumes "well_formed (structure g)"
    and "no_clash fuel_formals fuel_base (fuel_index idx) (structure g)"
  shows "add_fuel g a b fl ft idx =
           (Inr (), add_edge g a b (fuel_attrs fl ft (fuel_index idx) (structure g)))"
proof -
  let ?i = "fuel_index idx"
  from get_params_wf [OF assms(1), of ?i] obtain ps where ps: "get_params g ?i = (Inr ps, g)"
      "map fst ps = tagged_names ?i (params_of (structure g))"
      "map_of ps = defaults_for ?i (params_of (structure g))" by blast
  from get_variables_wf [OF assms(1), of ?i] obtain vs where vs: "get_variables g ?i = (Inr vs, g)"
      "map fst vs = tagged_names ?i (variables_of (structure g))"
      "map_of vs = defaults_for ?i (variables_of (structure g))" by blast
  have "bind_keywords [''self'', ''u_of_edge'', ''v_of_edge'']
          ([(''fuel_label'', JStr fl), (''fuel_type'', JStr ft), (''index'', JStr ?i)] @ ps @ vs) =
        Inr (map_of [(''fuel_label'', JStr fl), (''fuel_type'', JStr ft), (''index'', JStr ?i)]
             ++ map_of ps ++ map_of vs)"
    using bind_keywords_no_clash [OF ps(2) vs(2) _ assms(2) [unfolded fuel_formals_def],
        of "[(''fuel_label'', JStr fl), (''fuel_type'', JStr ft), (''index'', JStr ?i)]"]
    by (simp add: fuel_base_def)
  then show ?thesis
    using ps vs by (simp add: add_fuel_def fuel_attrs_def schema_defaults_def Let_def)
qed

text \<open>Either outcome of a call, whatever the schema.\<close>

lemma add_technology_cases:
  "(\<exists>e. add_technology g l ty la idx = (Inl e, g)) \<or>
   (\<exists>attr. add_technology g l ty la idx = (Inr (), add_node g l attr) \<and>
      (\<forall>h. structure h = structure g \<longrightarrow> add_technology h l ty la idx = (Inr (), add_node h l attr)))"
  by (auto simp: add_technology_def get_params_def get_variables_def Let_def
      split: sum.splits prod.splits)

lemma add_fuel_cases:
  "(\<exists>e. add_fuel g a b fl ft idx = (Inl e, g)) \<or>
   (\<exists>attr. add_fuel g a b fl ft idx = (Inr (), add_edge g a b attr) \<and>
      (\<forall>h. structure h = structure g \<longrightarrow> add_fuel h a b fl ft idx = (Inr (), add_edge h a b attr)))"
  by (auto simp: add_fuel_def get_params_def get_variables_def Let_def
      split: sum.splits prod.splits)

section \<open>The container's operations\<close>

lemma map_add_twice: "m ++ a ++ a = m ++ a"
  by (rule ext) (simp add: map_add_def split: option.splits)

lemma add_node_twice: "add_node (add_node g l attr) l attr = add_node g l attr"
  by (simp add: add_node_def map_add_twice)

lemma add_node_frame:
  "edges (add_node g l attr) = edges g" "structure (add_node g l attr) = structure g"
  "skeleton_path (add_node g l attr) = skeleton_path g"
  "n \<noteq> l \<Longrightarrow> nodes (add_node g l attr) n = nodes g n"
  "nodes (add_node g l attr) l = Some ((case nodes g l of None \<Rightarrow> Map.empty | Some d \<Rightarrow> d) ++ attr)"
  by (simp_all add: add_node_def)

lemma ensure_node_apply:
  "ensure_node n ns k = (if k = n then Some (case ns n of None \<Rightarrow> Map.empty | Some d \<Rightarrow> d) else ns k)"
  by (simp add: ensure_node_def split: option.splits)

lemma add_edge_frame:
  "structure (add_edge g a b attr) = structure g"
  "skeleton_path (add_edge g a b attr) = skeleton_path g"
  "edges (add_edge g a b attr) =
     (edges g)((a, b) \<mapsto> (case edges g (a, b) of None \<Rightarrow> Map.empty | Some d \<Rightarrow> d) ++ attr)"
  "nodes (add_edge g a b attr) n =
     (if n = a \<or> n = b then Some (case nodes g n of None \<Rightarrow> Map.empty | Some d \<Rightarrow> d) else nodes g n)"
  by (auto simp: add_edge_def ensure_node_apply)

lemma bind_keywords_clash:
  assumes "k \<in> set (map fst base)" and "k \<in> set (map fst (ps @ vs))"
  shows "bind_keywords formals (base @ ps @ vs) = Inl TypeError"
proof -
  from assms have "\<not> distinct (map fst (base @ ps @ vs))"
    by auto
  then show ?thesis by (simp add: bind_keywords_def)
qed

section \<open>Evaluating the examples\<close>

lemmas ex_defs = transmission_graph_def res_structure_def entry_def empty_graph_def
  capacity_structure_def layer_structure_def fuel_label_structure_def layer_x_structure_def
  default_skeleton_path_def no_files_def

lemmas code_defs = add_technology_def add_fuel_def get_params_def get_variables_def
  subscript_def items_def contains_def bind_keywords_def add_node_def add_edge_def
  ensure_node_def technology_index_def fuel_index_def Let_def init_def load_structure_def

lemmas spec_defs = well_formed_def collection_def wf_entries_def wf_entry_def no_clash_def
  tagged_names_def params_of_def variables_of_def declared_for_def declared_default_def
  technology_formals_def technology_base_def fuel_formals_def fuel_base_def

section \<open>The claims\<close>

text \<open>
  C1. With no file at the configured path, construction does not raise and the loaded
  structure is the empty dict, with a warning printed. On that graph the two queries do
  not return empty mappings: for every index \<open>i\<close>, \<open>get_params\<close> raises
  \<^verbatim>\<open>KeyError('params')\<close> and \<open>get_variables\<close> raises \<^verbatim>\<open>KeyError('variables')\<close>, and
  so does the first \<open>add_technology\<close> of the example script.
\<close>

theorem missing_file_queries_raise:
  "init no_files None =
     (Inr (empty_graph (JObj [])), [''Warning: ./Structure/skeleton.json not found.'']) \<and>
   get_params (empty_graph (JObj [])) i = (Inl (KeyError ''params''), empty_graph (JObj [])) \<and>
   get_variables (empty_graph (JObj [])) i = (Inl (KeyError ''variables''), empty_graph (JObj [])) \<and>
   add_technology (empty_graph (JObj [])) ''PWRHYD'' ''Hydroelectric Power Plant'' 0 None =
     (Inl (KeyError ''params''), empty_graph (JObj []))"
  by (simp add: code_defs ex_defs)

text \<open>
  C2, as the code has it. For every label, type string and layer, on a graph whose schema
  is well formed and whose names tagged \<^verbatim>\<open>"t"\<close> clash neither with each other, nor with
  \<^verbatim>\<open>tech_type\<close>, \<^verbatim>\<open>layer\<close>, \<^verbatim>\<open>index\<close>, nor with the parameters of \<^verbatim>\<open>add_node\<close>:
  \<open>add_technology\<close> with the index left at its default returns, and the node's attributes
  are its previous ones (none for a new label) updated with the type under \<^verbatim>\<open>tech_type\<close>,
  the layer under \<^verbatim>\<open>layer\<close>, \<^verbatim>\<open>index\<close> equal to \<^verbatim>\<open>"t"\<close>, and one entry per schema
  parameter and variable tagged \<^verbatim>\<open>"t"\<close>, equal to its declared default.
\<close>

theorem add_technology_default_attributes:
  assumes "well_formed (structure g)"
    and "no_clash technology_formals technology_base ''t'' (structure g)"
  shows "fst (add_technology g l ty la None) = Inr () \<and>
         nodes (snd (add_technology g l ty la None)) l =
           Some ((case nodes g l of None \<Rightarrow> Map.empty | Some d \<Rightarrow> d) ++
                 map_of [(''tech_type'', JStr ty), (''layer'', JInt la), (''index'', JStr ''t'')] ++
                 defaults_for ''t'' (params_of (structure g)) ++
                 defaults_for ''t'' (variables_of (structure g)))"
  using add_technology_wf [of g None l ty la] assms
  by (simp add: technology_index_def add_node_frame technology_attrs_def schema_defaults_def)

theorem add_technology_default_attributes_witness:
  "well_formed (structure (empty_graph res_structure)) \<and>
   no_clash technology_formals technology_base ''t'' (structure (empty_graph res_structure)) \<and>
   fst (add_technology (empty_graph res_structure) ''PWRGEO'' ''Geothermal Power Plant'' 0 None) = Inr () \<and>
   nodes (snd (add_technology (empty_graph res_structure) ''PWRGEO'' ''Geothermal Power Plant'' 0 None)) ''PWRGEO'' =
     Some ((case nodes (empty_graph res_structure) ''PWRGEO'' of None \<Rightarrow> Map.empty | Some d \<Rightarrow> d) ++
           map_of [(''tech_type'', JStr ''Geothermal Power Plant''), (''layer'', JInt 0), (''index'', JStr ''t'')] ++
           defaults_for ''t'' (params_of (structure (empty_graph res_structure))) ++
           defaults_for ''t'' (variables_of (structure (empty_graph res_structure)))) \<and>
   nodes (snd (add_technology (empty_graph res_structure) ''PWRGEO'' ''Geothermal Power Plant'' 0 None)) ''PWRGEO'' =
     Some (map_of [(''tech_type'', JStr ''Geothermal Power Plant''), (''layer'', JInt 0), (''index'', JStr ''t''),
                   (''CapitalCost'', JInt 0), (''NewCapacity'', JInt 0)])"
proof -
  have w: "well_formed (structure (empty_graph res_structure))"
    by (simp add: spec_defs ex_defs)
  have n: "no_clash technology_formals technology_base ''t'' (structure (empty_graph res_structure))"
    by (simp add: spec_defs ex_defs)
  have "nodes (snd (add_technology (empty_graph res_structure) ''PWRGEO'' ''Geothermal Power Plant'' 0 None)) ''PWRGEO'' =
     Some (map_of [(''tech_type'', JStr ''Geothermal Power Plant''), (''layer'', JInt 0), (''index'', JStr ''t''),
                   (''CapitalCost'', JInt 0), (''NewCapacity'', JInt 0)])"
    by (simp add: code_defs ex_defs)
  with w n add_technology_default_attributes [OF w n, of "''PWRGEO''" "''Geothermal Power Plant''" 0]
  show ?thesis by simp
qed

text \<open>
  The specification's scenario: the parameter \<^verbatim>\<open>Capacity\<close> is tagged \<^verbatim>\<open>"technology"\<close>, the
  call uses the index \<^verbatim>\<open>"t"\<close>, and the node gets neither \<^verbatim>\<open>Capacity\<close> nor a key
  \<^verbatim>\<open>type\<close>.
\<close>

theorem add_technology_scenario_counterexample:
  "nodes (snd (add_technology (empty_graph capacity_structure) ''PWRGEO'' ''Geothermal Power Plant'' 0 None)) ''PWRGEO'' =
     Some (map_of [(''tech_type'', JStr ''Geothermal Power Plant''), (''layer'', JInt 0), (''index'', JStr ''t'')]) \<and>
   nodes (snd (add_technology (empty_graph capacity_structure) ''PWRGEO'' ''Geothermal Power Plant'' 0 None)) ''PWRGEO'' \<noteq>
     Some (map_of [(''type'', JStr ''Geothermal Power Plant''), (''layer'', JInt 0), (''index'', JStr ''technology''),
                   (''Capacity'', JInt 0)])"
proof -
  have a: "nodes (snd (add_technology (empty_graph capacity_structure) ''PWRGEO'' ''Geothermal Power Plant'' 0 None)) ''PWRGEO'' =
     Some (map_of [(''tech_type'', JStr ''Geothermal Power Plant''), (''layer'', JInt 0), (''index'', JStr ''t'')])"
    by (simp add: code_defs ex_defs)
  have "map_of [(''tech_type'', JStr ''Geothermal Power Plant''), (''layer'', JInt 0), (''index'', JStr ''t'')] ''Capacity''
      \<noteq> map_of [(''type'', JStr ''Geothermal Power Plant''), (''layer'', JInt 0), (''index'', JStr ''technology''),
                   (''Capacity'', JInt 0)] ''Capacity''"
    by simp
  then have "map_of [(''tech_type'', JStr ''Geothermal Power Plant''), (''layer'', JInt 0), (''index'', JStr ''t'')]
      \<noteq> map_of [(''type'', JStr ''Geothermal Power Plant''), (''layer'', JInt 0), (''index'', JStr ''technology''),
                   (''Capacity'', JInt 0)]"
    by metis
  with a show ?thesis by simp
qed

text \<open>
  C3. For every well-formed loaded schema and every index code \<open>i\<close>, \<open>get_params\<close>
  returns a dict (no name twice) that maps exactly the parameters whose declared indices
  contain \<open>i\<close> to their declared defaults, and \<open>get_variables\<close> does the same over the
  schema's variables.
\<close>

theorem queries_exact:
  assumes "well_formed (structure g)"
  shows "\<exists>ps vs. get_params g i = (Inr ps, g) \<and> distinct (map fst ps) \<and>
           map_of ps = defaults_for i (params_of (structure g)) \<and>
           get_variables g i = (Inr vs, g) \<and> distinct (map fst vs) \<and>
           map_of vs = defaults_for i (variables_of (structure g))"
proof -
  from get_params_wf [OF assms, of i] obtain ps where ps: "get_params g i = (Inr ps, g)"
      "map fst ps = tagged_names i (params_of (structure g))"
      "map_of ps = defaults_for i (params_of (structure g))" by blast
  from get_variables_wf [OF assms, of i] obtain vs where vs: "get_variables g i = (Inr vs, g)"
      "map fst vs = tagged_names i (variables_of (structure g))"
      "map_of vs = defaults_for i (variables_of (structure g))" by blast
  from well_formed_parts(3,4) [OF assms]
  have "distinct (map fst ps)" "distinct (map fst vs)"
    using ps(2) vs(2) by (simp_all add: tagged_names_def wf_entries_def distinct_map_filter)
  with ps vs show ?thesis by blast
qed

theorem queries_exact_witness:
  "well_formed (structure transmission_graph) \<and>
   get_params transmission_graph ''t'' = (Inr [(''CapitalCost'', JInt 0)], transmission_graph) \<and>
   defaults_for ''t'' (params_of (structure transmission_graph)) ''CapitalCost'' = Some (JInt 0) \<and>
   defaults_for ''t'' (params_of (structure transmission_graph)) ''SpecifiedAnnualDemand'' = None \<and>
   (\<exists>ps vs. get_params transmission_graph ''t'' = (Inr ps, transmission_graph) \<and> distinct (map fst ps) \<and>
           map_of ps = defaults_for ''t'' (params_of (structure transmission_graph)) \<and>
           get_variables transmission_graph ''t'' = (Inr vs, transmission_graph) \<and> distinct (map fst vs) \<and>
           map_of vs = defaults_for ''t'' (variables_of (structure transmission_graph)))"
proof -
  have w: "well_formed (structure transmission_graph)"
    by (simp add: spec_defs ex_defs)
  have "get_params transmission_graph ''t'' = (Inr [(''CapitalCost'', JInt 0)], transmission_graph)"
    by (simp add: code_defs ex_defs)
  moreover have "defaults_for ''t'' (params_of (structure transmission_graph)) ''CapitalCost'' = Some (JInt 0)"
    "defaults_for ''t'' (params_of (structure transmission_graph)) ''SpecifiedAnnualDemand'' = None"
    by (simp_all add: defaults_for_def spec_defs ex_defs)
  ultimately show ?thesis using w queries_exact [OF w, of "''t''"] by blast
qed

text \<open>
  C4, as the code has it. For labels \<open>a\<close> and \<open>b\<close> that differ, where \<open>(b, a)\<close> is no
  edge, on a graph whose schema is well formed and whose names tagged \<^verbatim>\<open>"f"\<close> clash
  neither with each other, nor with \<^verbatim>\<open>fuel_label\<close>, \<^verbatim>\<open>fuel_type\<close>, \<^verbatim>\<open>index\<close>, nor with
  the parameters of \<^verbatim>\<open>add_edge\<close>: \<open>add_fuel\<close> with the index left at its default
  returns, the only edge it touches is \<open>(a, b)\<close>, whose attributes now hold the fuel
  label, the fuel type, \<^verbatim>\<open>index\<close> equal to \<^verbatim>\<open>"f"\<close> and the schema defaults for \<^verbatim>\<open>"f"\<close>,
  and \<open>(b, a)\<close> is still no edge.
\<close>

theorem add_fuel_default_edge:
  assumes "well_formed (structure g)"
    and "no_clash fuel_formals fuel_base ''f'' (structure g)"
    and "a \<noteq> b" and "edges g (b, a) = None"
  shows "fst (add_fuel g a b fl ft None) = Inr () \<and>
         edges (snd (add_fuel g a b fl ft None)) =
           (edges g)((a, b) \<mapsto>
             (case edges g (a, b) of None \<Rightarrow> Map.empty | Some d \<Rightarrow> d) ++
             map_of [(''fuel_label'', JStr fl), (''fuel_type'', JStr ft), (''index'', JStr ''f'')] ++
             defaults_for ''f'' (params_of (structure g)) ++
             defaults_for ''f'' (variables_of (structure g))) \<and>
         has_edge (snd (add_fuel g a b fl ft None)) a b \<and>
         \<not> has_edge (snd (add_fuel g a b fl ft None)) b a"
  using add_fuel_wf [of g None a b fl ft] assms
  by (simp add: fuel_index_def add_edge_frame fuel_attrs_def schema_defaults_def has_edge_def)

theorem add_fuel_default_edge_witness:
  "well_formed (structure (empty_graph res_structure)) \<and>
   no_clash fuel_formals fuel_base ''f'' (structure (empty_graph res_structure)) \<and>
   ''PWRGEO'' \<noteq> ''PWRTRN'' \<and> edges (empty_graph res_structure) (''PWRTRN'', ''PWRGEO'') = None \<and>
   fst (add_fuel (empty_graph res_structure) ''PWRGEO'' ''PWRTRN'' ''ELC001'' ''Electricity before Transmission'' None) = Inr () \<and>
   edges (snd (add_fuel (empty_graph res_structure) ''PWRGEO'' ''PWRTRN'' ''ELC001'' ''Electricity before Transmission'' None))
      (''PWRGEO'', ''PWRTRN'') =
     Some (map_of [(''fuel_label'', JStr ''ELC001''), (''fuel_type'', JStr ''Electricity before Transmission''),
                   (''index'', JStr ''f''), (''SpecifiedAnnualDemand'', JInt 0), (''Demand'', JInt 0)]) \<and>
   has_edge (snd (add_fuel (empty_graph res_structure) ''PWRGEO'' ''PWRTRN'' ''ELC001'' ''Electricity before Transmission'' None))
      ''PWRGEO'' ''PWRTRN'' \<and>
   \<not> has_edge (snd (add_fuel (empty_graph res_structure) ''PWRGEO'' ''PWRTRN'' ''ELC001'' ''Electricity before Transmission'' None))
      ''PWRTRN'' ''PWRGEO''"
proof -
  have w: "well_formed (structure (empty_graph res_structure))"
    by (simp add: spec_defs ex_defs)
  have n: "no_clash fuel_formals fuel_base ''f'' (structure (empty_graph res_structure))"
    by (simp add: spec_defs ex_defs)
  have d: "''PWRGEO'' \<noteq> ''PWRTRN''" by simp
  have e: "edges (empty_graph res_structure) (''PWRTRN'', ''PWRGEO'') = None"
    by (simp add: empty_graph_def)
  have "edges (snd (add_fuel (empty_graph res_structure) ''PWRGEO'' ''PWRTRN'' ''ELC001'' ''Electricity before Transmission'' None))
      (''PWRGEO'', ''PWRTRN'') =
     Some (map_of [(''fuel_label'', JStr ''ELC001''), (''fuel_type'', JStr ''Electricity before Transmission''),
                   (''index'', JStr ''f''), (''SpecifiedAnnualDemand'', JInt 0), (''Demand'', JInt 0)])"
    by (simp add: code_defs ex_defs)
  with w n e add_fuel_default_edge [OF w n d e, of "''ELC001''" "''Electricity before Transmission''"]
  show ?thesis by simp
qed

text \<open>
  With the default index the edge's \<^verbatim>\<open>index\<close> attribute is \<^verbatim>\<open>"f"\<close>, not \<^verbatim>\<open>"fuel"\<close>.
\<close>

theorem add_fuel_scenario_counterexample:
  "edges (snd (add_fuel (empty_graph capacity_structure) ''PWRGEO'' ''PWRTRN'' ''ELC001'' ''Electricity before Transmission'' None))
      (''PWRGEO'', ''PWRTRN'') =
     Some (map_of [(''fuel_label'', JStr ''ELC001''), (''fuel_type'', JStr ''Electricity before Transmission''),
                   (''index'', JStr ''f'')]) \<and>
   map_of [(''fuel_label'', JStr ''ELC001''), (''fuel_type'', JStr ''Electricity before Transmission''),
           (''index'', JStr ''f'')] ''index'' \<noteq> Some (JStr ''fuel'')"
  by (simp add: code_defs ex_defs)

text \<open>
  C5, as the code has it. When one of the keys \<^verbatim>\<open>tech_type\<close>, \<^verbatim>\<open>layer\<close>, \<^verbatim>\<open>index\<close> that
  \<open>add_technology\<close> passes itself also occurs among the schema defaults that \<open>get_params\<close>
  or \<open>get_variables\<close> return for the index, the call raises \<^verbatim>\<open>TypeError\<close> and the graph
  is unchanged: no value takes precedence.
\<close>

theorem add_technology_clash_raises:
  assumes "fst (get_params g (technology_index idx)) = Inr ps"
    and "fst (get_variables g (technology_index idx)) = Inr vs"
    and "k \<in> set technology_base"
    and "k \<in> set (map fst ps) \<or> k \<in> set (map fst vs)"
  shows "add_technology g l ty la idx = (Inl TypeError, g)"
proof -
  let ?i = "technology_index idx"
  from assms(1) have p: "get_params g ?i = (Inr ps, g)"
    using get_params_pure [of g ?i] by (metis prod.collapse)
  from assms(2) have v: "get_variables g ?i = (Inr vs, g)"
    using get_variables_pure [of g ?i] by (metis prod.collapse)
  have "bind_keywords [''self'', ''node_for_adding'']
          ([(''tech_type'', JStr ty), (''layer'', JInt la), (''index'', JStr ?i)] @ ps @ vs) = Inl TypeError"
    using assms(3,4) by (intro bind_keywords_clash [of k]) (auto simp: technology_base_def)
  with p v show ?thesis by (simp add: add_technology_def Let_def)
qed

theorem add_technology_clash_raises_witness:
  "fst (get_params (empty_graph layer_structure) (technology_index (Some ''t''))) = Inr [(''layer'', JInt 7)] \<and>
   fst (get_variables (empty_graph layer_structure) (technology_index (Some ''t''))) = Inr [] \<and>
   ''layer'' \<in> set technology_base \<and>
   add_technology (empty_graph layer_structure) ''PWRSOL001'' ''Photovoltaic Power Plant'' 0 (Some ''t'') =
     (Inl TypeError, empty_graph layer_structure)"
proof -
  have p: "fst (get_params (empty_graph layer_structure) (technology_index (Some ''t''))) = Inr [(''layer'', JInt 7)]"
    by (simp add: code_defs ex_defs)
  have v: "fst (get_variables (empty_graph layer_structure) (technology_index (Some ''t''))) = Inr []"
    by (simp add: code_defs ex_defs)
  have b: "''layer'' \<in> set technology_base" by (simp add: technology_base_def)
  have k: "''layer'' \<in> set (map fst [(''layer'', JInt 7)]) \<or> ''layer'' \<in> set (map fst ([] :: (string \<times> json) list))"
    by simp
  from p v b add_technology_clash_raises [OF p v b k, of "''PWRSOL001''" "''Photovoltaic Power Plant''" 0]
  show ?thesis by simp
qed

text \<open>
  A well-formed schema with a parameter \<^verbatim>\<open>layer\<close> tagged \<^verbatim>\<open>"t"\<close>: the call raises and adds
  no node.
\<close>

theorem add_technology_clash_counterexample:
  "well_formed (structure (empty_graph layer_structure)) \<and>
   fst (get_params (empty_graph layer_structure) ''t'') = Inr [(''layer'', JInt 7)] \<and>
   add_technology (empty_graph layer_structure) ''PWRGEO'' ''Geothermal Power Plant'' 0 None =
     (Inl TypeError, empty_graph layer_structure) \<and>
   nodes (snd (add_technology (empty_graph layer_structure) ''PWRGEO'' ''Geothermal Power Plant'' 0 None)) ''PWRGEO'' = None"
proof -
  have "well_formed (structure (empty_graph layer_structure))"
    by (simp add: spec_defs ex_defs)
  moreover have "fst (get_params (empty_graph layer_structure) ''t'') = Inr [(''layer'', JInt 7)]"
    by (simp add: code_defs ex_defs)
  moreover have "add_technology (empty_graph layer_structure) ''PWRGEO'' ''Geothermal Power Plant'' 0 None =
     (Inl TypeError, empty_graph layer_structure)"
    by (simp add: code_defs ex_defs)
  ultimately show ?thesis by (simp add: empty_graph_def)
qed

text \<open>
  C6, as the code has it. On a graph whose schema is well formed and whose names tagged
  \<^verbatim>\<open>"f"\<close> clash with no keyword of the call, for every pair of labels \<open>a\<close>, \<open>b\<close> where
  \<open>b\<close> has not been added as a technology (it is no node, or a node without
  \<^verbatim>\<open>tech_type\<close> and \<^verbatim>\<open>layer\<close>): \<open>add_fuel\<close> with the default index returns,
  \<open>(a, b)\<close> is an edge, and \<open>b\<close> is a node with the attributes it had, none when it
  was no node or a node without attributes; so it has no \<^verbatim>\<open>tech_type\<close> and no
  \<^verbatim>\<open>layer\<close>.
\<close>

theorem add_fuel_creates_bare_node:
  assumes "well_formed (structure g)"
    and "no_clash fuel_formals fuel_base ''f'' (structure g)"
    and "case nodes g b of None \<Rightarrow> True | Some d \<Rightarrow> d ''tech_type'' = None \<and> d ''layer'' = None"
  shows "fst (add_fuel g a b fl ft None) = Inr () \<and>
         has_edge (snd (add_fuel g a b fl ft None)) a b \<and>
         nodes (snd (add_fuel g a b fl ft None)) b =
           Some (case nodes g b of None \<Rightarrow> Map.empty | Some d \<Rightarrow> d) \<and>
         (case nodes g b of None \<Rightarrow> Map.empty | Some d \<Rightarrow> d) ''tech_type'' = None \<and>
         (case nodes g b of None \<Rightarrow> Map.empty | Some d \<Rightarrow> d) ''layer'' = None \<and>
         (nodes g b = None \<or> nodes g b = Some Map.empty \<longrightarrow>
            nodes (snd (add_fuel g a b fl ft None)) b = Some Map.empty)"
proof -
  have call: "add_fuel g a b fl ft None =
      (Inr (), add_edge g a b (fuel_attrs fl ft ''f'' (structure g)))"
    using add_fuel_wf [of g None a b fl ft] assms(1,2) by (simp add: fuel_index_def)
  have node: "nodes (snd (add_fuel g a b fl ft None)) b =
      Some (case nodes g b of None \<Rightarrow> Map.empty | Some d \<Rightarrow> d)"
    using call by (simp add: add_edge_frame)
  have edge: "has_edge (snd (add_fuel g a b fl ft None)) a b"
    using call by (simp add: add_edge_frame has_edge_def)
  have bare: "(case nodes g b of None \<Rightarrow> Map.empty | Some d \<Rightarrow> d) ''tech_type'' = None"
    "(case nodes g b of None \<Rightarrow> Map.empty | Some d \<Rightarrow> d) ''layer'' = None"
    using assms(3) by (simp_all split: option.splits)
  have "nodes (snd (add_fuel g a b fl ft None)) b = Some Map.empty"
    if "nodes g b = None \<or> nodes g b = Some Map.empty"
    using that node by auto
  with call node edge bare show ?thesis by simp
qed

text \<open>The second fuel into a label that only an earlier fuel has made a node.\<close>

theorem add_fuel_creates_bare_node_witness:
  "well_formed (structure (snd (add_fuel (empty_graph res_structure) ''PWRHYD'' ''PWRTRN'' ''ELC001''
      ''Electricity before Transmission'' None))) \<and>
   no_clash fuel_formals fuel_base ''f'' (structure (snd (add_fuel (empty_graph res_structure) ''PWRHYD''
      ''PWRTRN'' ''ELC001'' ''Electricity before Transmission'' None))) \<and>
   nodes (empty_graph res_structure) ''PWRTRN'' = None \<and>
   nodes (snd (add_fuel (empty_graph res_structure) ''PWRHYD'' ''PWRTRN'' ''ELC001''
      ''Electricity before Transmission'' None)) ''PWRTRN'' = Some Map.empty \<and>
   fst (add_fuel (snd (add_fuel (empty_graph res_structure) ''PWRHYD'' ''PWRTRN'' ''ELC001''
          ''Electricity before Transmission'' None))
        ''PWRGEO'' ''PWRTRN'' ''ELC001'' ''Electricity before Transmission'' None) = Inr () \<and>
   has_edge (snd (add_fuel (snd (add_fuel (empty_graph res_structure) ''PWRHYD'' ''PWRTRN'' ''ELC001''
          ''Electricity before Transmission'' None))
        ''PWRGEO'' ''PWRTRN'' ''ELC001'' ''Electricity before Transmission'' None)) ''PWRGEO'' ''PWRTRN'' \<and>
   nodes (snd (add_fuel (snd (add_fuel (empty_graph res_structure) ''PWRHYD'' ''PWRTRN'' ''ELC001''
          ''Electricity before Transmission'' None))
        ''PWRGEO'' ''PWRTRN'' ''ELC001'' ''Electricity before Transmission'' None)) ''PWRTRN'' = Some Map.empty"
proof -
  let ?g1 = "snd (add_fuel (empty_graph res_structure) ''PWRHYD'' ''PWRTRN'' ''ELC001''
      ''Electricity before Transmission'' None)"
  have s: "structure ?g1 = res_structure"
    by (simp add: code_defs ex_defs)
  have w: "well_formed (structure ?g1)"
    unfolding s by (simp add: spec_defs ex_defs)
  have n: "no_clash fuel_formals fuel_base ''f'' (structure ?g1)"
    unfolding s by (simp add: spec_defs ex_defs)
  have e: "nodes (empty_graph res_structure) ''PWRTRN'' = None"
    by (simp add: empty_graph_def)
  have b: "nodes ?g1 ''PWRTRN'' = Some Map.empty"
    by (simp add: code_defs ex_defs)
  have h: "case nodes ?g1 ''PWRTRN'' of None \<Rightarrow> True
           | Some d \<Rightarrow> d ''tech_type'' = None \<and> d ''layer'' = None"
    by (simp add: b)
  from add_fuel_creates_bare_node [OF w n h, of "''PWRGEO''" "''ELC001''" "''Electricity before Transmission''"]
  have "fst (add_fuel ?g1 ''PWRGEO'' ''PWRTRN'' ''ELC001'' ''Electricity before Transmission'' None) = Inr ()"
    "has_edge (snd (add_fuel ?g1 ''PWRGEO'' ''PWRTRN'' ''ELC001'' ''Electricity before Transmission'' None))
       ''PWRGEO'' ''PWRTRN''"
    "nodes (snd (add_fuel ?g1 ''PWRGEO'' ''PWRTRN'' ''ELC001'' ''Electricity before Transmission'' None))
       ''PWRTRN'' = Some Map.empty"
    using b by simp_all
  with w n e b show ?thesis by blast
qed

text \<open>
  A well-formed schema with a parameter \<^verbatim>\<open>fuel_label\<close> tagged \<^verbatim>\<open>"f"\<close>: the call raises,
  and there is no edge.
\<close>

theorem add_fuel_raises_counterexample:
  "well_formed (structure (empty_graph fuel_label_structure)) \<and>
   nodes (empty_graph fuel_label_structure) ''PWRTRN'' = None \<and>
   add_fuel (empty_graph fuel_label_structure) ''PWRGEO'' ''PWRTRN'' ''ELC001'' ''Electricity before Transmission'' None =
     (Inl TypeError, empty_graph fuel_label_structure) \<and>
   \<not> has_edge (snd (add_fuel (empty_graph fuel_label_structure) ''PWRGEO'' ''PWRTRN'' ''ELC001''
        ''Electricity before Transmission'' None)) ''PWRGEO'' ''PWRTRN''"
proof -
  have "well_formed (structure (empty_graph fuel_label_structure))"
    by (simp add: spec_defs ex_defs)
  moreover have "add_fuel (empty_graph fuel_label_structure) ''PWRGEO'' ''PWRTRN'' ''ELC001'' ''Electricity before Transmission'' None =
     (Inl TypeError, empty_graph fuel_label_structure)"
    by (simp add: code_defs ex_defs)
  ultimately show ?thesis by (simp add: empty_graph_def has_edge_def)
qed

text \<open>
  C7. Idempotence of \<open>add_technology\<close>: for every graph state, a second call with the same
  label and the same arguments returns as the first did and leaves the graph as the first
  call left it: the node set and the node's attributes are those after the first call.
\<close>

theorem add_technology_idempotent:
  "add_technology (snd (add_technology g l ty la idx)) l ty la idx = add_technology g l ty la idx"
  using add_technology_cases [of g l ty la idx]
proof (elim disjE exE conjE)
  fix e assume "add_technology g l ty la idx = (Inl e, g)"
  then show ?thesis by simp
next
  fix attr
  assume 1: "add_technology g l ty la idx = (Inr (), add_node g l attr)"
    and 2: "\<forall>h. structure h = structure g \<longrightarrow> add_technology h l ty la idx = (Inr (), add_node h l attr)"
  from 2 have "add_technology (add_node g l attr) l ty la idx = (Inr (), add_node (add_node g l attr) l attr)"
    by (simp add: add_node_frame)
  with 1 show ?thesis by (simp add: add_node_twice)
qed

theorem add_technology_idempotent_witness:
  "add_technology (snd (add_technology transmission_graph ''PWRGEO'' ''Geothermal Power Plant'' 0 None))
     ''PWRGEO'' ''Geothermal Power Plant'' 0 None
   = add_technology transmission_graph ''PWRGEO'' ''Geothermal Power Plant'' 0 None \<and>
   fst (add_technology transmission_graph ''PWRGEO'' ''Geothermal Power Plant'' 0 None) = Inr ()"
  using add_technology_idempotent [of transmission_graph "''PWRGEO''" "''Geothermal Power Plant''" 0 None]
  by (simp add: code_defs ex_defs)

text \<open>
  C8, as the code has it. Adding a label that is a node, or a pair that is an edge, never
  makes a second node or a parallel edge: the set of nodes (of edges) and its size are
  unchanged, whether the call returns or raises. When the schema is well formed and no
  keyword of the call clashes, the call returns and the attributes of the node (of the
  edge) are the old ones updated with the new ones.
\<close>

theorem readd_merges:
  "(nodes g l \<noteq> None \<longrightarrow>
      dom (nodes (snd (add_technology g l ty la idx))) = dom (nodes g) \<and>
      card (dom (nodes (snd (add_technology g l ty la idx)))) = card (dom (nodes g))) \<and>
   (edges g (a, b) \<noteq> None \<longrightarrow>
      dom (edges (snd (add_fuel g a b fl ft fidx))) = dom (edges g) \<and>
      card (dom (edges (snd (add_fuel g a b fl ft fidx)))) = card (dom (edges g))) \<and>
   (well_formed (structure g) \<and>
    no_clash technology_formals technology_base (technology_index idx) (structure g) \<and>
    nodes g l = Some old \<longrightarrow>
      fst (add_technology g l ty la idx) = Inr () \<and>
      nodes (snd (add_technology g l ty la idx)) l =
        Some (old ++ technology_attrs ty la (technology_index idx) (structure g))) \<and>
   (well_formed (structure g) \<and>
    no_clash fuel_formals fuel_base (fuel_index fidx) (structure g) \<and>
    edges g (a, b) = Some eold \<longrightarrow>
      fst (add_fuel g a b fl ft fidx) = Inr () \<and>
      edges (snd (add_fuel g a b fl ft fidx)) (a, b) =
        Some (eold ++ fuel_attrs fl ft (fuel_index fidx) (structure g)))"
proof -
  have n: "dom (nodes (snd (add_technology g l ty la idx))) = dom (nodes g)" if "nodes g l \<noteq> None"
    using add_technology_cases [of g l ty la idx] that
    by (auto simp: add_node_def split: if_splits)
  have e: "dom (edges (snd (add_fuel g a b fl ft fidx))) = dom (edges g)" if "edges g (a, b) \<noteq> None"
    using add_fuel_cases [of g a b fl ft fidx] that
    by (auto simp: add_edge_def split: if_splits)
  have t: "fst (add_technology g l ty la idx) = Inr () \<and>
      nodes (snd (add_technology g l ty la idx)) l =
        Some (old ++ technology_attrs ty la (technology_index idx) (structure g))"
    if "well_formed (structure g)"
      "no_clash technology_formals technology_base (technology_index idx) (structure g)"
      "nodes g l = Some old"
    using add_technology_wf [OF that(1,2), of l ty la] that(3) by (simp add: add_node_frame)
  have f: "fst (add_fuel g a b fl ft fidx) = Inr () \<and>
      edges (snd (add_fuel g a b fl ft fidx)) (a, b) =
        Some (eold ++ fuel_attrs fl ft (fuel_index fidx) (structure g))"
    if "well_formed (structure g)"
      "no_clash fuel_formals fuel_base (fuel_index fidx) (structure g)"
      "edges g (a, b) = Some eold"
    using add_fuel_wf [OF that(1,2), of a b fl ft] that(3) by (simp add: add_edge_frame)
  from n e t f show ?thesis by simp
qed

theorem readd_merges_witness:
  "dom (nodes (snd (add_technology transmission_graph ''PWRTRN'' ''Transmission'' 2 None))) = dom (nodes transmission_graph) \<and>
   card (dom (nodes (snd (add_technology transmission_graph ''PWRTRN'' ''Transmission'' 2 None)))) = 2 \<and>
   fst (add_technology transmission_graph ''PWRTRN'' ''Transmission'' 2 None) = Inr () \<and>
   nodes (snd (add_technology transmission_graph ''PWRTRN'' ''Transmission'' 2 None)) ''PWRTRN'' =
     Some (map_of [(''tech_type'', JStr ''Transmission''), (''layer'', JInt 2), (''index'', JStr ''t''),
                   (''CapitalCost'', JInt 0), (''NewCapacity'', JInt 0)]) \<and>
   dom (edges (snd (add_fuel transmission_graph ''PWRHYD'' ''PWRTRN'' ''ELC001'' ''Electricity before Transmission'' None)))
     = dom (edges transmission_graph) \<and>
   card (dom (edges (snd (add_fuel transmission_graph ''PWRHYD'' ''PWRTRN'' ''ELC001'' ''Electricity before Transmission'' None))))
     = 1 \<and>
   fst (add_fuel transmission_graph ''PWRHYD'' ''PWRTRN'' ''ELC001'' ''Electricity before Transmission'' None) = Inr () \<and>
   edges (snd (add_fuel transmission_graph ''PWRHYD'' ''PWRTRN'' ''ELC001'' ''Electricity before Transmission'' None))
      (''PWRHYD'', ''PWRTRN'') =
     Some ([''fuel_label'' \<mapsto> JStr ''ELC001''] ++
           fuel_attrs ''ELC001'' ''Electricity before Transmission'' ''f'' res_structure)"
proof -
  have w: "well_formed (structure transmission_graph)"
    by (simp add: spec_defs ex_defs)
  have nt: "no_clash technology_formals technology_base (technology_index None) (structure transmission_graph)"
    by (simp add: spec_defs ex_defs technology_index_def)
  have nf: "no_clash fuel_formals fuel_base (fuel_index None) (structure transmission_graph)"
    by (simp add: spec_defs ex_defs fuel_index_def)
  have n: "nodes transmission_graph ''PWRTRN'' =
      Some [''tech_type'' \<mapsto> JStr ''Transmission of Electricity'', ''layer'' \<mapsto> JInt 1, ''index'' \<mapsto> JStr ''t'']"
    by (simp add: transmission_graph_def)
  have e: "edges transmission_graph (''PWRHYD'', ''PWRTRN'') = Some [''fuel_label'' \<mapsto> JStr ''ELC001'']"
    by (simp add: transmission_graph_def)
  have c: "card (dom (nodes transmission_graph)) = 2" "card (dom (edges transmission_graph)) = 1"
    by (simp_all add: transmission_graph_def)
  have s: "structure transmission_graph = res_structure" "fuel_index None = ''f''"
    by (simp_all add: transmission_graph_def fuel_index_def)
  have v: "nodes (snd (add_technology transmission_graph ''PWRTRN'' ''Transmission'' 2 None)) ''PWRTRN'' =
     Some (map_of [(''tech_type'', JStr ''Transmission''), (''layer'', JInt 2), (''index'', JStr ''t''),
                   (''CapitalCost'', JInt 0), (''NewCapacity'', JInt 0)])"
    by (simp add: code_defs ex_defs)
  from readd_merges [of transmission_graph "''PWRTRN''" "''Transmission''" 2 None
      "''PWRHYD''" "''PWRTRN''" "''ELC001''" "''Electricity before Transmission''" None
      "[''tech_type'' \<mapsto> JStr ''Transmission of Electricity'', ''layer'' \<mapsto> JInt 1, ''index'' \<mapsto> JStr ''t'']"
      "[''fuel_label'' \<mapsto> JStr ''ELC001'']"]
    w nt nf n e c s v
  show ?thesis by simp
qed

text \<open>
  A well-formed schema with a parameter \<^verbatim>\<open>layer\<close> tagged \<^verbatim>\<open>"x"\<close>: the label is added
  with the default index, and adding it again with the index \<^verbatim>\<open>"x"\<close> raises.
\<close>

theorem readd_fails_counterexample:
  "well_formed (structure (empty_graph layer_x_structure)) \<and>
   fst (add_technology (empty_graph layer_x_structure) ''PWRGEO'' ''Geothermal Power Plant'' 0 None) = Inr () \<and>
   nodes (snd (add_technology (empty_graph layer_x_structure) ''PWRGEO'' ''Geothermal Power Plant'' 0 None)) ''PWRGEO''
     \<noteq> None \<and>
   fst (add_technology (snd (add_technology (empty_graph layer_x_structure) ''PWRGEO'' ''Geothermal Power Plant'' 0 None))
          ''PWRGEO'' ''Geothermal Power Plant'' 0 (Some ''x'')) = Inl TypeError"
proof -
  have "well_formed (structure (empty_graph layer_x_structure))"
    by (simp add: spec_defs ex_defs)
  moreover have "fst (add_technology (empty_graph layer_x_structure) ''PWRGEO'' ''Geothermal Power Plant'' 0 None) = Inr ()"
    by (simp add: code_defs ex_defs)
  moreover have "nodes (snd (add_technology (empty_graph layer_x_structure) ''PWRGEO'' ''Geothermal Power Plant'' 0 None)) ''PWRGEO''
     \<noteq> None"
    by (simp add: code_defs ex_defs)
  moreover have "fst (add_technology (snd (add_technology (empty_graph layer_x_structure) ''PWRGEO'' ''Geothermal Power Plant'' 0 None))
          ''PWRGEO'' ''Geothermal Power Plant'' 0 (Some ''x'')) = Inl TypeError"
    by (simp add: code_defs ex_defs)
  ultimately show ?thesis by simp
qed

text \<open>
  C9. \<open>get_params\<close> and \<open>get_variables\<close> are pure queries: for every graph state and
  every index code, the object after the call is the object before it, with its nodes, its
  edges, all their attributes and the loaded structure.
\<close>

theorem queries_are_pure:
  "snd (get_params g i) = g \<and> snd (get_variables g i) = g"
  by (simp add: get_params_pure get_variables_pure)

theorem queries_are_pure_witness:
  "snd (get_params transmission_graph ''t'') = transmission_graph \<and>
   snd (get_variables transmission_graph ''t'') = transmission_graph"
  using queries_are_pure [of transmission_graph "''t''"] by simp

text \<open>
  C10. Frame of \<open>add_technology\<close>: for every graph state and every call, every node other
  than the label keeps its attributes (and a label that is no node stays none), the edges
  and their attributes are unchanged, and so are the loaded structure and the path.
\<close>

theorem add_technology_frame:
  "(\<forall>n. n \<noteq> l \<longrightarrow> nodes (snd (add_technology g l ty la idx)) n = nodes g n) \<and>
   edges (snd (add_technology g l ty la idx)) = edges g \<and>
   structure (snd (add_technology g l ty la idx)) = structure g \<and>
   skeleton_path (snd (add_technology g l ty la idx)) = skeleton_path g"
  using add_technology_cases [of g l ty la idx]
  by (auto simp: add_node_frame)

theorem add_technology_frame_witness:
  "nodes (snd (add_technology transmission_graph ''PWRGEO'' ''Geothermal Power Plant'' 0 None)) ''PWRTRN''
     = nodes transmission_graph ''PWRTRN'' \<and>
   nodes (snd (add_technology transmission_graph ''PWRGEO'' ''Geothermal Power Plant'' 0 None)) ''PWRGEO''
     \<noteq> nodes transmission_graph ''PWRGEO'' \<and>
   edges (snd (add_technology transmission_graph ''PWRGEO'' ''Geothermal Power Plant'' 0 None))
     = edges transmission_graph \<and>
   structure (snd (add_technology transmission_graph ''PWRGEO'' ''Geothermal Power Plant'' 0 None))
     = structure transmission_graph"
proof -
  have "add_technology transmission_graph ''PWRGEO'' ''Geothermal Power Plant'' 0 None =
     (Inr (), add_node transmission_graph ''PWRGEO''
        (map_of [(''tech_type'', JStr ''Geothermal Power Plant''), (''layer'', JInt 0), (''index'', JStr ''t''),
                 (''CapitalCost'', JInt 0), (''NewCapacity'', JInt 0)]))"
    by (simp add: code_defs ex_defs)
  then have "nodes (snd (add_technology transmission_graph ''PWRGEO'' ''Geothermal Power Plant'' 0 None)) ''PWRGEO''
     \<noteq> nodes transmission_graph ''PWRGEO''"
    by (simp add: add_node_def transmission_graph_def)
  with add_technology_frame [of "''PWRGEO''" transmission_graph "''Geothermal Power Plant''" 0 None]
  show ?thesis by simp
qed

end
